theory Spec2Isabelle
  imports Main "HOL-Library.Word" "HOL-Library.Sublist"
begin


section \<open>Package common: constants\<close>

text \<open>The string constants of \<^verbatim>\<open>api/common\<close> that the Cluster resource uses.\<close>

definition common_Cluster :: string where
  "common_Cluster = ''cluster''"

definition DefaultConsulNamespace :: string where
  "DefaultConsulNamespace = ''default''"

definition SourceKey :: string where
  "SourceKey = ''external-source''"

definition DatacenterKey :: string where
  "DatacenterKey = ''consul.hashicorp.com/source-datacenter''"

definition SourceValue :: string where
  "SourceValue = ''kubernetes''"

section \<open>The Cluster resource (api/v1alpha1/cluster\_types.go)\<close>

text \<open>
  The Kubernetes object metadata a Cluster embeds. Only the fields the methods below read
  or write are named; a Go slice is a list (the nil slice and the empty slice are both
  the empty list, they have the same elements and the same length).
\<close>

record ObjectMeta =
  ObjectMeta_Name :: string
  ObjectMeta_Namespace :: string
  Finalizers :: "string list"

record TransparentProxyClusterConfig =
  CatalogDestinationsOnly :: bool

record ClusterSpec =
  TransparentProxy :: TransparentProxyClusterConfig

record Condition =
  Condition_Type :: string
  Condition_Status :: string
  LastTransitionTime :: nat
  Condition_Reason :: string
  Condition_Message :: string

record Status =
  Conditions :: "Condition list"
  LastSyncedTime :: "nat option"

record Cluster =
  ObjectMeta :: ObjectMeta
  Spec :: ClusterSpec
  Status :: Status

record ClusterList =
  Items :: "Cluster list"

definition ClusterKubeKind :: string where
  "ClusterKubeKind = ''cluster''"

text \<open>\<^verbatim>\<open>capi.ClusterConfig\<close>, the kind string of the Consul config entry.\<close>

definition capi_ClusterConfig :: string where
  "capi_ClusterConfig = ''cluster''"

definition AddFinalizer :: "string \<Rightarrow> Cluster \<Rightarrow> Cluster" where
  "AddFinalizer name c = c\<lparr>ObjectMeta := (ObjectMeta c)\<lparr>Finalizers := Finalizers (ObjectMeta c) @ [name]\<rparr>\<rparr>"

text \<open>
  The loop of \<^verbatim>\<open>RemoveFinalizer\<close>: \<open>newFinalizers\<close> is the accumulator the source
  appends to, the last argument is what remains of the range over the old finalizers.
\<close>

fun RemoveFinalizer_loop :: "string \<Rightarrow> string list \<Rightarrow> string list \<Rightarrow> string list" where
  "RemoveFinalizer_loop name newFinalizers [] = newFinalizers"
| "RemoveFinalizer_loop name newFinalizers (oldF # rest) =
     (if oldF \<noteq> name then RemoveFinalizer_loop name (newFinalizers @ [oldF]) rest
      else RemoveFinalizer_loop name newFinalizers rest)"

definition RemoveFinalizer :: "string \<Rightarrow> Cluster \<Rightarrow> Cluster" where
  "RemoveFinalizer name c =
     c\<lparr>ObjectMeta := (ObjectMeta c)\<lparr>Finalizers := RemoveFinalizer_loop name [] (Finalizers (ObjectMeta c))\<rparr>\<rparr>"

definition ConsulKind :: "Cluster \<Rightarrow> string" where
  "ConsulKind c = capi_ClusterConfig"

definition KubeKind :: "Cluster \<Rightarrow> string" where
  "KubeKind c = ClusterKubeKind"

definition ConsulName :: "Cluster \<Rightarrow> string" where
  "ConsulName c = ObjectMeta_Name (ObjectMeta c)"

definition KubernetesName :: "Cluster \<Rightarrow> string" where
  "KubernetesName c = ObjectMeta_Name (ObjectMeta c)"

subsection \<open>Conversion to a Consul config entry and comparison\<close>

text \<open>
  \<^verbatim>\<open>capi.ClusterConfigEntry\<close> of the Consul API, with the fields the source and its tests
  set. \<open>Meta\<close> is a Go map, the two indexes are \<^verbatim>\<open>uint64\<close>.
\<close>

record ClusterConfigEntry =
  Entry_Kind :: string
  Entry_Name :: string
  Entry_Namespace :: string
  Entry_TransparentProxy :: TransparentProxyClusterConfig
  Entry_Meta :: "string \<rightharpoonup> string"
  CreateIndex :: "64 word"
  ModifyIndex :: "64 word"

text \<open>
  \<^verbatim>\<open>capi.ConfigEntry\<close> is an interface. A value of it is a pointer to a cluster entry
  (\<open>None\<close> is the nil pointer of that type), a pointer to an entry of another kind (here
  the service-defaults entry of the tests, with its kind and name), or the nil interface.
\<close>

datatype ConfigEntry =
    ClusterConfigEntryPtr "ClusterConfigEntry option"
  | ServiceConfigEntryPtr string string
  | NilConfigEntry

text \<open>
  Modelled from the spec: the helper \<^verbatim>\<open>meta\<close> of package v1alpha1 is not among the
  sources; \<^verbatim>\<open>TestCluster_ToConsul\<close> fixes its result as the map holding the source key and
  the datacenter key.
\<close>

definition meta :: "string \<Rightarrow> (string \<rightharpoonup> string)" where
  "meta datacenter = [SourceKey \<mapsto> SourceValue, DatacenterKey \<mapsto> datacenter]"

definition toConsul :: "TransparentProxyClusterConfig \<Rightarrow> TransparentProxyClusterConfig" where
  "toConsul c = \<lparr>CatalogDestinationsOnly = CatalogDestinationsOnly c\<rparr>"

definition ToConsul_entry :: "Cluster \<Rightarrow> string \<Rightarrow> ClusterConfigEntry" where
  "ToConsul_entry c datacenter =
     \<lparr>Entry_Kind = ConsulKind c,
      Entry_Name = ConsulName c,
      Entry_Namespace = '''',
      Entry_TransparentProxy = toConsul (TransparentProxy (Spec c)),
      Entry_Meta = meta datacenter,
      CreateIndex = 0,
      ModifyIndex = 0\<rparr>"

definition ToConsul :: "Cluster \<Rightarrow> string \<Rightarrow> ConfigEntry" where
  "ToConsul c datacenter = ClusterConfigEntryPtr (Some (ToConsul_entry c datacenter))"

text \<open>
  \<^verbatim>\<open>cmp.Equal\<close> on two pointers to cluster entries under the options of
  \<^verbatim>\<open>MatchesConsul\<close>: the fields Namespace, Meta, ModifyIndex and CreateIndex are ignored, so
  the kind, the name and the transparent-proxy block are compared. Two nil pointers are
  equal, a nil and a non-nil pointer are not.
\<close>

fun cmp_Equal :: "ClusterConfigEntry option \<Rightarrow> ClusterConfigEntry option \<Rightarrow> bool" where
  "cmp_Equal None None = True"
| "cmp_Equal (Some x) (Some y) =
     (Entry_Kind x = Entry_Kind y \<and> Entry_Name x = Entry_Name y
      \<and> CatalogDestinationsOnly (Entry_TransparentProxy x)
          = CatalogDestinationsOnly (Entry_TransparentProxy y))"
| "cmp_Equal _ _ = False"

fun MatchesConsul :: "Cluster \<Rightarrow> ConfigEntry \<Rightarrow> bool" where
  "MatchesConsul c (ClusterConfigEntryPtr configEntry) =
     cmp_Equal (Some (ToConsul_entry c '''')) configEntry"
| "MatchesConsul c _ = False"

section \<open>The admission webhook of the Cluster resource\<close>

text \<open>
  The Kubernetes client of the webhook, as far as \<^verbatim>\<open>Handle\<close> uses it: listing the Cluster
  resources either fails with an error or returns the stored ones.
\<close>

record Client =
  objects :: "Cluster list"
  listError :: "string option"

definition Client_List :: "Client \<Rightarrow> string + ClusterList" where
  "Client_List cl = (case listError cl of Some e \<Rightarrow> Inl e | None \<Rightarrow> Inr \<lparr>Items = objects cl\<rparr>)"

text \<open>
  The webhook holds the client and the decoder; the decoder maps the raw object of a
  request to a Cluster or to a decoding error.
\<close>

record 'raw ClusterWebhook =
  client :: Client
  decoder :: "'raw \<Rightarrow> string + Cluster"

record 'raw Request =
  Operation :: string
  Object :: 'raw

definition admissionv1_Create :: string where
  "admissionv1_Create = ''CREATE''"

record Response =
  Allowed :: bool
  Result_Code :: int
  Result_Reason :: string
  Result_Message :: string

definition StatusBadRequest :: int where
  "StatusBadRequest = 400"

definition StatusInternalServerError :: int where
  "StatusInternalServerError = 500"

definition admission_Errored :: "int \<Rightarrow> string \<Rightarrow> Response" where
  "admission_Errored code err =
     \<lparr>Allowed = False, Result_Code = code, Result_Reason = '''', Result_Message = err\<rparr>"

definition admission_Allowed :: "string \<Rightarrow> Response" where
  "admission_Allowed reason =
     \<lparr>Allowed = True, Result_Code = 200, Result_Reason = reason, Result_Message = ''''\<rparr>"

definition Handle :: "'raw ClusterWebhook \<Rightarrow> 'raw Request \<Rightarrow> Response" where
  "Handle v req =
     (case decoder v (Object req) of
        Inl err \<Rightarrow> admission_Errored StatusBadRequest err
      | Inr cluster \<Rightarrow>
          if Operation req = admissionv1_Create then
            if KubernetesName cluster \<noteq> common_Cluster then
              admission_Errored StatusBadRequest
                (KubeKind cluster @ '' resource name must be \"'' @ common_Cluster @ ''\"'')
            else
              (case Client_List (client v) of
                 Inl err \<Rightarrow> admission_Errored StatusInternalServerError err
               | Inr clusterList \<Rightarrow>
                   if length (Items clusterList) > 0 then
                     admission_Errored StatusBadRequest
                       (KubeKind cluster
                        @ '' resource already defined - only one cluster entry is supported'')
                   else admission_Allowed (''valid '' @ KubeKind cluster @ '' request''))
          else admission_Allowed (''valid '' @ KubeKind cluster @ '' request''))"

section \<open>Namespace resolution\<close>

record Handler =
  EnableNamespaces :: bool
  ConsulDestinationNamespace :: string
  EnableK8SNSMirroring :: bool
  K8SNSMirroringPrefix :: string

text \<open>
  Modelled from the spec: the body of \<^verbatim>\<open>Handler.consulNamespace\<close> (and of the
  \<^verbatim>\<open>namespaces\<close> package it calls) is not among the sources, only its test
  \<^verbatim>\<open>TestConsulNamespace\<close> is. The two branches for mirroring and for the static
  destination are the resolver of the specification; the first branch is what the rows of
  the test table with namespaces disabled expect, the empty string.
\<close>

definition consulNamespace :: "Handler \<Rightarrow> string \<Rightarrow> string" where
  "consulNamespace h ns =
     (if \<not> EnableNamespaces h then ''''
      else if EnableK8SNSMirroring h then K8SNSMirroringPrefix h @ ns
      else ConsulDestinationNamespace h)"

section \<open>The mesh catalog\<close>

text \<open>
  Modelled from the spec: the endpoints controller (\<^verbatim>\<open>EndpointsController.Reconcile\<close> and what
  it calls) is not among the sources, only its tests are. The catalog, the operations on it
  and the reconciliation pass below follow sections 3, 4.1, 4.2, 6 and 7 of the
  specification; names and constants are those of the tests where the tests show them.
\<close>

type_synonym Agent = string

text \<open>The key of a reconciliation: namespace and name of the endpoints object.\<close>

record Key =
  kubeNamespace :: string
  kubeName :: string

text \<open>
  Modelled from the spec: the structured metadata of an instance (section 3): owning pod
  name, originating endpoints object name, owning pod namespace.
\<close>

record Meta =
  MetaKeyPodName :: string
  MetaKeyKubeServiceName :: string
  MetaKeyKubeNS :: string

datatype ServiceKind = ServiceKindTypical | ServiceKindConnectProxy

record AgentServiceConnectProxyConfig =
  DestinationServiceName :: string
  DestinationServiceID :: string

text \<open>
  Modelled from the spec: a service instance (section 3), with the field names of
  \<^verbatim>\<open>api.CatalogService\<close> in the tests. Its identity is the service ID and the namespace.
  A sidecar-proxy instance has kind connect-proxy and carries the back-reference to its
  primary in \<open>ServiceProxy\<close>.
\<close>

record ServiceInstance =
  ServiceID :: string
  ServiceName :: string
  ServiceKind :: ServiceKind
  ServiceAddress :: string
  ServicePort :: int
  ServiceTags :: "string list"
  ServiceMeta :: Meta
  Namespace :: string
  ServiceProxy :: "AgentServiceConnectProxyConfig option"

text \<open>
  Modelled from the spec: the health check of an instance (section 3), a pass/fail flag with
  a status text, linked by ID to its instance.
\<close>

record HealthCheck =
  CheckID :: string
  Check_ServiceID :: string
  Check_Namespace :: string
  Check_Passing :: bool
  Check_Output :: string

text \<open>
  Modelled from the spec: the state of the mesh catalog: the instances and the health checks
  registered with each agent, in the order of registration.
\<close>

record Catalog =
  services :: "(Agent \<times> ServiceInstance) list"
  checks :: "(Agent \<times> HealthCheck) list"

definition sidecarSuffix :: string where
  "sidecarSuffix = ''-sidecar-proxy''"

definition proxyPort :: int where
  "proxyPort = 20000"

text \<open>
  Modelled from the spec: the sidecar-proxy instance paired with a primary (section 3): ID
  suffixed, port fixed to the proxy port, back-reference to the primary's ID; the name is
  suffixed as the ID is, as the expected proxy instances of the tests are.
\<close>

definition sidecarOf :: "ServiceInstance \<Rightarrow> ServiceInstance" where
  "sidecarOf p =
     p\<lparr>ServiceID := ServiceID p @ sidecarSuffix,
       ServiceName := ServiceName p @ sidecarSuffix,
       ServiceKind := ServiceKindConnectProxy,
       ServicePort := proxyPort,
       ServiceProxy := Some \<lparr>DestinationServiceName = ServiceName p,
                             DestinationServiceID = ServiceID p\<rparr>\<rparr>"

text \<open>
  Modelled from the spec: the TTL health check registered with a primary, initialized
  passing; the check ID is built as the expected checks of the tests are.
\<close>

definition ttlCheck :: "ServiceInstance \<Rightarrow> HealthCheck" where
  "ttlCheck p =
     \<lparr>CheckID = MetaKeyKubeNS (ServiceMeta p) @ ''/'' @ ServiceID p @ ''/kubernetes-health-check'',
      Check_ServiceID = ServiceID p,
      Check_Namespace = Namespace p,
      Check_Passing = True,
      Check_Output = ''Kubernetes health checks passing''\<rparr>"

subsection \<open>The mesh catalog client\<close>

text \<open>The place of an entry in the catalog: agent, namespace and service ID.\<close>

definition slotOf :: "Agent \<times> ServiceInstance \<Rightarrow> Agent \<times> string \<times> string" where
  "slotOf e = (fst e, Namespace (snd e), ServiceID (snd e))"

text \<open>
  Modelled from the spec: \<^verbatim>\<open>Register(agent, instance)\<close> and \<^verbatim>\<open>Deregister(agent, serviceID)\<close>
  of the mesh catalog client (section 6), both idempotent by service ID: registering replaces
  what the agent holds under the instance's identity, deregistering removes it.
\<close>

definition Register :: "Agent \<Rightarrow> ServiceInstance \<Rightarrow> (Agent \<times> ServiceInstance) list \<Rightarrow> (Agent \<times> ServiceInstance) list" where
  "Register a i svcs = filter (\<lambda>e. slotOf e \<noteq> (a, Namespace i, ServiceID i)) svcs @ [(a, i)]"

definition Deregister :: "Agent \<Rightarrow> string \<Rightarrow> string \<Rightarrow> (Agent \<times> ServiceInstance) list \<Rightarrow> (Agent \<times> ServiceInstance) list" where
  "Deregister a ns sid svcs = filter (\<lambda>e. slotOf e \<noteq> (a, ns, sid)) svcs"

text \<open>
  Modelled from the spec: the owner metadata of an instance matches a key when it names the
  key's endpoints object and namespace.
\<close>

definition owned :: "Key \<Rightarrow> ServiceInstance \<Rightarrow> bool" where
  "owned key i =
     (MetaKeyKubeServiceName (ServiceMeta i) = kubeName key
      \<and> MetaKeyKubeNS (ServiceMeta i) = kubeNamespace key)"

text \<open>
  Modelled from the spec: \<^verbatim>\<open>ListByOwner(agent, namespace, ownerKey)\<close> of the mesh catalog client.
\<close>

definition ListByOwner :: "Agent \<Rightarrow> string \<Rightarrow> Key \<Rightarrow> (Agent \<times> ServiceInstance) list \<Rightarrow> ServiceInstance list" where
  "ListByOwner a ns key svcs =
     map snd (filter (\<lambda>e. fst e = a \<and> Namespace (snd e) = ns \<and> owned key (snd e)) svcs)"

text \<open>
  Modelled from the spec: registering and removing the health check of an instance, the
  check being initialized by \<^verbatim>\<open>SetHealth\<close> as passing.
\<close>

definition RegisterCheck :: "Agent \<Rightarrow> HealthCheck \<Rightarrow> (Agent \<times> HealthCheck) list \<Rightarrow> (Agent \<times> HealthCheck) list" where
  "RegisterCheck a c chks =
     filter (\<lambda>e. \<not> (fst e = a \<and> Check_Namespace (snd e) = Check_Namespace c
                      \<and> CheckID (snd e) = CheckID c)) chks @ [(a, c)]"

definition DeregisterChecks :: "Agent \<Rightarrow> string \<Rightarrow> string \<Rightarrow> (Agent \<times> HealthCheck) list \<Rightarrow> (Agent \<times> HealthCheck) list" where
  "DeregisterChecks a ns sid chks =
     filter (\<lambda>e. \<not> (fst e = a \<and> Check_Namespace (snd e) = ns \<and> Check_ServiceID (snd e) = sid)) chks"

section \<open>The reconciliation engine\<close>

subsection \<open>Operations of a diff\<close>

text \<open>
  Modelled from the spec: the two corrective operations of a diff (section 4.1, step 5). The
  first registers a primary on an agent, together with its sidecar-proxy and its TTL health
  check; the second deregisters, on an agent and in a namespace, the instance of the given
  service ID together with its paired sidecar-proxy and its health check.
\<close>

datatype Op =
    OpRegister Agent ServiceInstance
  | OpDeregister Agent string string

fun agentOf :: "Op \<Rightarrow> Agent" where
  "agentOf (OpRegister a p) = a"
| "agentOf (OpDeregister a ns sid) = a"

fun svcExec :: "Op \<Rightarrow> (Agent \<times> ServiceInstance) list \<Rightarrow> (Agent \<times> ServiceInstance) list" where
  "svcExec (OpRegister a p) svcs = Register a (sidecarOf p) (Register a p svcs)"
| "svcExec (OpDeregister a ns sid) svcs = Deregister a ns (sid @ sidecarSuffix) (Deregister a ns sid svcs)"

fun chkExec :: "Op \<Rightarrow> (Agent \<times> HealthCheck) list \<Rightarrow> (Agent \<times> HealthCheck) list" where
  "chkExec (OpRegister a p) chks = RegisterCheck a (ttlCheck p) chks"
| "chkExec (OpDeregister a ns sid) chks = DeregisterChecks a ns sid chks"

definition execOp :: "Op \<Rightarrow> Catalog \<Rightarrow> Catalog" where
  "execOp op cat = \<lparr>services = svcExec op (services cat), checks = chkExec op (checks cat)\<rparr>"

text \<open>Applying a diff: every operation takes effect, in the order of the diff.\<close>

fun applyDiff :: "Op list \<Rightarrow> Catalog \<Rightarrow> Catalog" where
  "applyDiff [] cat = cat"
| "applyDiff (op # ops) cat = applyDiff ops (execOp op cat)"

text \<open>
  Modelled from the spec: carrying out a diff against the agents (section 4.1, step 6, and
  section 7). A call may fail; \<open>fails\<close> tells of each operation whether its call fails in
  this pass. A failed operation changes nothing and is recorded, the operations after it
  are still carried out, and nothing already applied is undone. The result is the catalog
  and the operations that failed.
\<close>

fun runOps :: "(Op \<Rightarrow> bool) \<Rightarrow> Op list \<Rightarrow> Catalog \<Rightarrow> Catalog \<times> Op list" where
  "runOps fails [] cat = (cat, [])"
| "runOps fails (op # ops) cat =
     (if fails op then (case runOps fails ops cat of (cat', errs) \<Rightarrow> (cat', op # errs))
      else runOps fails ops (execOp op cat))"

subsection \<open>Desired and observed set, and the diff\<close>

text \<open>
  Modelled from the spec: an entry of the desired set is a primary instance with the agent
  colocated with it, \<open>None\<close> when no agent could be located. An entry stands for the primary
  together with its sidecar-proxy.
\<close>

type_synonym DesiredSet = "(Agent option \<times> ServiceInstance) list"

definition desiredIDs :: "DesiredSet \<Rightarrow> string list" where
  "desiredIDs D = map (\<lambda>d. ServiceID (snd d)) D"

text \<open>
  Modelled from the spec: the observed set scoped to an agent: the primary instances the
  agent holds in the namespace whose owner metadata matches the key. As in the desired set,
  an entry stands for the primary together with its sidecar-proxy.
\<close>

definition ObservedSet :: "Agent \<Rightarrow> string \<Rightarrow> Key \<Rightarrow> (Agent \<times> ServiceInstance) list \<Rightarrow> ServiceInstance list" where
  "ObservedSet a ns key svcs =
     filter (\<lambda>i. ServiceKind i = ServiceKindTypical) (ListByOwner a ns key svcs)"

text \<open>
  Modelled from the spec: an observed instance and a desired instance of the same service
  ID match when address, port, tags and metadata are the same (tags as an ordered sequence).
\<close>

definition unchanged :: "ServiceInstance \<Rightarrow> ServiceInstance \<Rightarrow> bool" where
  "unchanged ob p =
     (ServiceAddress ob = ServiceAddress p \<and> ServicePort ob = ServicePort p
      \<and> ServiceTags ob = ServiceTags p \<and> ServiceMeta ob = ServiceMeta p)"

definition presentUnchanged :: "ServiceInstance list \<Rightarrow> ServiceInstance \<Rightarrow> bool" where
  "presentUnchanged obs p = list_ex (\<lambda>ob. ServiceID ob = ServiceID p \<and> unchanged ob p) obs"

text \<open>
  Modelled from the spec: the diff of one agent (section 4.1, step 5). An observed instance
  whose service ID is absent from the desired set is deregistered; a desired instance of
  this agent that is absent from the observed set, or present with a differing address,
  port, tags or metadata, is registered; a matching, unchanged instance gets no operation.
\<close>

definition diffAgent :: "Key \<Rightarrow> string \<Rightarrow> DesiredSet \<Rightarrow> (Agent \<times> ServiceInstance) list \<Rightarrow> Agent \<Rightarrow> Op list" where
  "diffAgent key ns D svcs a =
     map (\<lambda>ob. OpDeregister a ns (ServiceID ob))
         (filter (\<lambda>ob. ServiceID ob \<notin> set (desiredIDs D)) (ObservedSet a ns key svcs))
     @ map (\<lambda>d. OpRegister a (snd d))
         (filter (\<lambda>d. fst d = Some a \<and> \<not> presentUnchanged (ObservedSet a ns key svcs) (snd d)) D)"

text \<open>
  Modelled from the spec: the agents implicated in the desired set or in the observed set
  (section 4.1, step 4), each once.
\<close>

definition implicatedAgents :: "Key \<Rightarrow> string \<Rightarrow> DesiredSet \<Rightarrow> (Agent \<times> ServiceInstance) list \<Rightarrow> Agent list" where
  "implicatedAgents key ns D svcs =
     remdups (concat (map (\<lambda>d. case fst d of None \<Rightarrow> [] | Some a \<Rightarrow> [a]) D)
              @ map fst (filter (\<lambda>e. Namespace (snd e) = ns \<and> owned key (snd e)
                                     \<and> ServiceKind (snd e) = ServiceKindTypical) svcs))"

definition diff :: "Key \<Rightarrow> string \<Rightarrow> DesiredSet \<Rightarrow> (Agent \<times> ServiceInstance) list \<Rightarrow> Op list" where
  "diff key ns D svcs = concat (map (diffAgent key ns D svcs) (implicatedAgents key ns D svcs))"

subsection \<open>The orchestration layer and one reconciliation pass\<close>

text \<open>
  Modelled from the spec: an address of an endpoints snapshot (section 6): address,
  readiness and backing-pod reference (namespace and name of the pod), with the node the
  address is on.
\<close>

record EndpointAddress =
  IP :: string
  NodeName :: string
  Ready :: bool
  TargetRef :: "(string \<times> string) option"

datatype EndpointsResult =
    EndpointsNotFound
  | EndpointsFound "EndpointAddress list"
  | EndpointsError string

text \<open>
  Modelled from the spec: the pod metadata the desired set is built from (section 6): the
  injection-status marker, the mesh-service-name override, the tags, and the port.
\<close>

record Pod =
  PodName :: string
  InjectStatus :: bool
  AnnotationService :: "string option"
  AnnotationTags :: "string list"
  AnnotationPort :: int

text \<open>
  Modelled from the spec: what one pass reads besides the catalog: the namespace policy
  (the settings of namespace resolution, allow set and deny set), the endpoint snapshot
  reader, the pods, the agent located for a node (\<open>None\<close> is AgentNotFound), and which
  calls to the mesh catalog fail during the pass.
\<close>

record World =
  namespaces :: Handler
  AllowK8sNamespacesSet :: "string list"
  DenyK8sNamespacesSet :: "string list"
  Get :: "Key \<Rightarrow> EndpointsResult"
  pods :: "string \<times> string \<Rightarrow> Pod option"
  LocateAgent :: "string \<Rightarrow> Agent option"
  callFails :: "Op \<Rightarrow> bool"

text \<open>
  Modelled from the spec: \<^verbatim>\<open>IsAllowed\<close> (section 4.3): deny takes precedence, and \<^verbatim>\<open>"*"\<close> in
  the allow set allows every namespace.
\<close>

definition IsAllowed :: "World \<Rightarrow> string \<Rightarrow> bool" where
  "IsAllowed w ns =
     (ns \<notin> set (DenyK8sNamespacesSet w)
      \<and> (''*'' \<in> set (AllowK8sNamespacesSet w) \<or> ns \<in> set (AllowK8sNamespacesSet w)))"

text \<open>
  Modelled from the spec: the primary instance of an address and its pod (section 4.1, step
  3). The mesh service name is the override annotation of the pod if there is one and the
  name of the endpoints object otherwise; the service ID is the pod name, a dash and the
  mesh service name, as in the tests; the owner metadata is the key.
\<close>

definition mkInstance :: "Key \<Rightarrow> string \<Rightarrow> Pod \<Rightarrow> EndpointAddress \<Rightarrow> ServiceInstance" where
  "mkInstance key ns pod addr =
     (let svcName = (case AnnotationService pod of Some n \<Rightarrow> n | None \<Rightarrow> kubeName key) in
      \<lparr>ServiceID = PodName pod @ ''-'' @ svcName,
       ServiceName = svcName,
       ServiceKind = ServiceKindTypical,
       ServiceAddress = IP addr,
       ServicePort = AnnotationPort pod,
       ServiceTags = AnnotationTags pod,
       ServiceMeta = \<lparr>MetaKeyPodName = PodName pod, MetaKeyKubeServiceName = kubeName key,
                      MetaKeyKubeNS = kubeNamespace key\<rparr>,
       Namespace = ns,
       ServiceProxy = None\<rparr>)"

text \<open>
  Modelled from the spec: the desired set of a pass (section 4.1, step 3): one entry for
  every ready address that resolves to a pod carrying the injection marker; the other
  addresses are skipped.
\<close>

definition desiredEntry :: "World \<Rightarrow> Key \<Rightarrow> string \<Rightarrow> EndpointAddress \<Rightarrow> DesiredSet" where
  "desiredEntry w key ns addr =
     (case TargetRef addr of
        None \<Rightarrow> []
      | Some ref \<Rightarrow>
          (case pods w ref of
             None \<Rightarrow> []
           | Some pod \<Rightarrow>
               if InjectStatus pod
               then [(LocateAgent w (NodeName addr), mkInstance key ns pod addr)]
               else []))"

definition buildDesiredSet :: "World \<Rightarrow> Key \<Rightarrow> string \<Rightarrow> EndpointAddress list \<Rightarrow> DesiredSet" where
  "buildDesiredSet w key ns addrs = concat (map (desiredEntry w key ns) (filter Ready addrs))"

datatype Outcome = Success | RetryableFailure | Fatal

text \<open>
  Modelled from the spec: the diff of the pass for a key and a catalog (section 4.1, steps
  2 to 5): nothing for a denied namespace or an unreadable endpoints object; for a deleted
  endpoints object the deregistration of every owner-matching instance on every agent, which
  is the diff against the empty desired set; otherwise the diff against the desired set
  built from the endpoints object.
\<close>

definition destinationNamespace :: "World \<Rightarrow> Key \<Rightarrow> string" where
  "destinationNamespace w key = consulNamespace (namespaces w) (kubeNamespace key)"

definition desiredOf :: "World \<Rightarrow> Key \<Rightarrow> DesiredSet" where
  "desiredOf w key =
     (case Get w key of
        EndpointsFound addrs \<Rightarrow> buildDesiredSet w key (destinationNamespace w key) addrs
      | _ \<Rightarrow> [])"

definition passDiff :: "World \<Rightarrow> Key \<Rightarrow> Catalog \<Rightarrow> Op list" where
  "passDiff w key cat =
     (if \<not> IsAllowed w (kubeNamespace key) then []
      else (case Get w key of
              EndpointsError e \<Rightarrow> []
            | _ \<Rightarrow> diff key (destinationNamespace w key) (desiredOf w key) (services cat)))"

text \<open>
  Modelled from the spec: \<^verbatim>\<open>Reconcile(key)\<close> (section 4.1). A denied namespace is a no-op
  success; an unreadable endpoints object is fatal; otherwise the diff of the pass is
  carried out, and the pass is a success when no call failed and every desired instance had
  a locatable agent, and a retryable failure otherwise. The result is the outcome, the diff
  that was issued, and the catalog after the pass.
\<close>

definition Reconcile :: "World \<Rightarrow> Key \<Rightarrow> Catalog \<Rightarrow> Outcome \<times> Op list \<times> Catalog" where
  "Reconcile w key cat =
     (if \<not> IsAllowed w (kubeNamespace key) then (Success, [], cat)
      else (case Get w key of
              EndpointsError e \<Rightarrow> (Fatal, [], cat)
            | _ \<Rightarrow>
                (case runOps (callFails w) (passDiff w key cat) cat of
                   (cat', errs) \<Rightarrow>
                     (if errs = [] \<and> list_all (\<lambda>d. fst d \<noteq> None) (desiredOf w key)
                      then Success else RetryableFailure,
                      passDiff w key cat, cat'))))"

subsection \<open>Well-formed desired sets and paired catalogs\<close>

text \<open>
  A desired set is keyed by service ID when the service IDs of its entries are pairwise
  distinct and none of them is a sidecar-proxy ID (none ends with the sidecar suffix).
\<close>

definition keyedByServiceID :: "DesiredSet \<Rightarrow> bool" where
  "keyedByServiceID D =
     (distinct (desiredIDs D) \<and> list_all (\<lambda>d. \<not> suffix sidecarSuffix (ServiceID (snd d))) D)"

text \<open>
  A desired set of a key in a namespace: keyed by service ID, every entry a primary
  instance in the namespace whose owner metadata is the key, with a located agent.
\<close>

definition desiredSetOf :: "Key \<Rightarrow> string \<Rightarrow> DesiredSet \<Rightarrow> bool" where
  "desiredSetOf key ns D =
     (keyedByServiceID D
      \<and> list_all (\<lambda>d. fst d \<noteq> None \<and> owned key (snd d) \<and> Namespace (snd d) = ns
                       \<and> ServiceKind (snd d) = ServiceKindTypical) D)"

text \<open>
  The pairing invariant of the catalog (section 3): an agent holds at most one instance
  under an identity; every primary has an ID that is not a sidecar-proxy ID and has its
  sidecar-proxy on the same agent; every sidecar-proxy is the sidecar of a primary on the
  same agent.
\<close>

definition pairedEntry :: "(Agent \<times> ServiceInstance) list \<Rightarrow> Agent \<times> ServiceInstance \<Rightarrow> bool" where
  "pairedEntry svcs e =
     (case ServiceKind (snd e) of
        ServiceKindTypical \<Rightarrow>
          \<not> suffix sidecarSuffix (ServiceID (snd e)) \<and> List.member svcs (fst e, sidecarOf (snd e))
      | ServiceKindConnectProxy \<Rightarrow>
          list_ex (\<lambda>e'. fst e' = fst e \<and> ServiceKind (snd e') = ServiceKindTypical
                        \<and> snd e = sidecarOf (snd e')) svcs)"

definition paired :: "(Agent \<times> ServiceInstance) list \<Rightarrow> bool" where
  "paired svcs = (distinct (map slotOf svcs) \<and> list_all (pairedEntry svcs) svcs)"

text \<open>The sidecar-proxy instances an agent holds for a primary: those that refer back to it.\<close>

definition sidecarsOf :: "(Agent \<times> ServiceInstance) list \<Rightarrow> Agent \<Rightarrow> ServiceInstance \<Rightarrow> ServiceInstance list" where
  "sidecarsOf svcs a p =
     map snd (filter (\<lambda>e. fst e = a \<and> Namespace (snd e) = Namespace p
                          \<and> ServiceKind (snd e) = ServiceKindConnectProxy
                          \<and> (case ServiceProxy (snd e) of
                                None \<Rightarrow> False
                              | Some c \<Rightarrow> DestinationServiceID c = ServiceID p)) svcs)"

text \<open>The part of the catalog held by one agent.\<close>

definition atAgent :: "Agent \<Rightarrow> Catalog \<Rightarrow> Catalog" where
  "atAgent b cat =
     \<lparr>services = filter (\<lambda>e. fst e = b) (services cat),
      checks = filter (\<lambda>e. fst e = b) (checks cat)\<rparr>"

text \<open>
  The owner-matching instances of a key in a namespace, on all agents: all of them, and the
  primaries among them.
\<close>

definition ownedInstances :: "Key \<Rightarrow> string \<Rightarrow> (Agent \<times> ServiceInstance) list \<Rightarrow> ServiceInstance list" where
  "ownedInstances key ns svcs =
     map snd (filter (\<lambda>e. Namespace (snd e) = ns \<and> owned key (snd e)) svcs)"

definition ownedPrimaries :: "Key \<Rightarrow> string \<Rightarrow> (Agent \<times> ServiceInstance) list \<Rightarrow> ServiceInstance list" where
  "ownedPrimaries key ns svcs =
     filter (\<lambda>i. ServiceKind i = ServiceKindTypical) (ownedInstances key ns svcs)"

text \<open>The Cluster named "cluster" with an empty spec, as the tests of the webhook build it.\<close>

definition testCluster :: "string \<Rightarrow> Cluster" where
  "testCluster name =
     \<lparr>ObjectMeta = \<lparr>ObjectMeta_Name = name, ObjectMeta_Namespace = '''', Finalizers = []\<rparr>,
      Spec = \<lparr>TransparentProxy = \<lparr>CatalogDestinationsOnly = False\<rparr>\<rparr>,
      Status = \<lparr>Conditions = [], LastSyncedTime = None\<rparr>\<rparr>"

text \<open>
  A webhook whose decoder accepts every raw object (the raw object is the Cluster itself),
  over a client that stores the given Cluster resources and whose listing fails with the
  given error, if any.
\<close>

definition testWebhook :: "Cluster list \<Rightarrow> string option \<Rightarrow> Cluster ClusterWebhook" where
  "testWebhook existing err =
     \<lparr>client = \<lparr>objects = existing, listError = err\<rparr>, decoder = (\<lambda>c. Inr c)\<rparr>"


section \<open>Properties of the Cluster resource\<close>

lemma RemoveFinalizer_loop_filter:
  "RemoveFinalizer_loop name acc fs = acc @ filter (\<lambda>f. f \<noteq> name) fs"
  by (induction fs arbitrary: acc) simp_all

lemma filter_absent: "name \<notin> set fs \<Longrightarrow> filter (\<lambda>f. f \<noteq> name) fs = fs"
  by (induction fs) auto

text \<open>
  Claim C10. AddFinalizer appends the name at the end of the finalizer list and keeps the
  existing entries; RemoveFinalizer removes every occurrence of the name and keeps the
  others in their order; on a list that does not contain the name, removing after adding
  gives the original Cluster back; both leave every other field of the Cluster as it was.
\<close>

theorem finalizers_add_remove:
  "Finalizers (ObjectMeta (AddFinalizer n c)) = Finalizers (ObjectMeta c) @ [n]
   \<and> Finalizers (ObjectMeta (RemoveFinalizer n c)) = filter (\<lambda>f. f \<noteq> n) (Finalizers (ObjectMeta c))
   \<and> (n \<notin> set (Finalizers (ObjectMeta c)) \<longrightarrow> RemoveFinalizer n (AddFinalizer n c) = c)
   \<and> AddFinalizer n c = c\<lparr>ObjectMeta := (ObjectMeta c)\<lparr>Finalizers := Finalizers (ObjectMeta (AddFinalizer n c))\<rparr>\<rparr>
   \<and> RemoveFinalizer n c = c\<lparr>ObjectMeta := (ObjectMeta c)\<lparr>Finalizers := Finalizers (ObjectMeta (RemoveFinalizer n c))\<rparr>\<rparr>"
  by (simp add: AddFinalizer_def RemoveFinalizer_def RemoveFinalizer_loop_filter filter_absent)

theorem finalizers_add_remove_witness:
  "''finalizer'' \<notin> set [''f1'', ''f2'']
   \<and> RemoveFinalizer ''finalizer''
       (AddFinalizer ''finalizer''
          \<lparr>ObjectMeta = \<lparr>ObjectMeta_Name = ''cluster'', ObjectMeta_Namespace = '''', Finalizers = [''f1'', ''f2'']\<rparr>,
           Spec = \<lparr>TransparentProxy = \<lparr>CatalogDestinationsOnly = True\<rparr>\<rparr>,
           Status = \<lparr>Conditions = [], LastSyncedTime = None\<rparr>\<rparr>)
     = \<lparr>ObjectMeta = \<lparr>ObjectMeta_Name = ''cluster'', ObjectMeta_Namespace = '''', Finalizers = [''f1'', ''f2'']\<rparr>,
        Spec = \<lparr>TransparentProxy = \<lparr>CatalogDestinationsOnly = True\<rparr>\<rparr>,
        Status = \<lparr>Conditions = [], LastSyncedTime = None\<rparr>\<rparr>"
  using finalizers_add_remove [of "''finalizer''"
      "\<lparr>ObjectMeta = \<lparr>ObjectMeta_Name = ''cluster'', ObjectMeta_Namespace = '''', Finalizers = [''f1'', ''f2'']\<rparr>,
        Spec = \<lparr>TransparentProxy = \<lparr>CatalogDestinationsOnly = True\<rparr>\<rparr>,
        Status = \<lparr>Conditions = [], LastSyncedTime = None\<rparr>\<rparr>"]
  by simp

text \<open>
  Claim C8. A Cluster matches its own conversion to a Consul config entry, whatever the
  datacenter (the comparison does not look at Namespace, Meta, ModifyIndex and
  CreateIndex, so changing them in the converted entry keeps the match), and it matches
  no config entry that is not a cluster config entry.
\<close>

theorem MatchesConsul_ToConsul:
  "MatchesConsul c (ToConsul c d)
   \<and> MatchesConsul c (ClusterConfigEntryPtr (Some ((ToConsul_entry c d)
        \<lparr>Entry_Namespace := ns, Entry_Meta := m, CreateIndex := ci, ModifyIndex := mi\<rparr>)))
   \<and> \<not> MatchesConsul c (ServiceConfigEntryPtr k n)
   \<and> \<not> MatchesConsul c NilConfigEntry"
  by (simp add: ToConsul_def ToConsul_entry_def)


section \<open>Properties of the admission webhook\<close>

text \<open>
  Claim C9, as the code has it. For a Create request that decodes, Handle answers with an
  error exactly when the name of the decoded resource is not "cluster", or listing the
  existing Cluster resources fails, or at least one Cluster resource exists; a decoded
  request of any other operation is allowed.
\<close>

theorem Handle_Create_errored_iff:
  "decoder v (Object req) = Inr cluster \<Longrightarrow>
     (Operation req = admissionv1_Create \<longrightarrow>
        (\<not> Allowed (Handle v req)) =
          (KubernetesName cluster \<noteq> ''cluster''
           \<or> listError (client v) \<noteq> None
           \<or> objects (client v) \<noteq> []))
     \<and> (Operation req \<noteq> admissionv1_Create \<longrightarrow> Allowed (Handle v req))"
  by (auto simp: Handle_def Client_List_def admission_Errored_def admission_Allowed_def
        common_Cluster_def split: option.splits)

theorem Handle_Create_errored_iff_witness:
  "decoder (testWebhook [] None) (Object \<lparr>Operation = ''CREATE'', Object = testCluster ''cluster''\<rparr>)
     = Inr (testCluster ''cluster'')
   \<and> Operation \<lparr>Operation = ''CREATE'', Object = testCluster ''cluster''\<rparr> = admissionv1_Create
   \<and> Allowed (Handle (testWebhook [] None) \<lparr>Operation = ''CREATE'', Object = testCluster ''cluster''\<rparr>)
   \<and> \<not> Allowed (Handle (testWebhook [testCluster ''cluster''] None)
                  \<lparr>Operation = ''CREATE'', Object = testCluster ''cluster''\<rparr>)
   \<and> \<not> Allowed (Handle (testWebhook [] None) \<lparr>Operation = ''CREATE'', Object = testCluster ''local''\<rparr>)
   \<and> Allowed (Handle (testWebhook [testCluster ''cluster''] None)
                  \<lparr>Operation = ''UPDATE'', Object = testCluster ''local''\<rparr>)"
  using Handle_Create_errored_iff
          [of "testWebhook [] None" "\<lparr>Operation = ''CREATE'', Object = testCluster ''cluster''\<rparr>"
              "testCluster ''cluster''"]
        Handle_Create_errored_iff
          [of "testWebhook [testCluster ''cluster''] None"
              "\<lparr>Operation = ''CREATE'', Object = testCluster ''cluster''\<rparr>" "testCluster ''cluster''"]
        Handle_Create_errored_iff
          [of "testWebhook [] None" "\<lparr>Operation = ''CREATE'', Object = testCluster ''local''\<rparr>"
              "testCluster ''local''"]
        Handle_Create_errored_iff
          [of "testWebhook [testCluster ''cluster''] None"
              "\<lparr>Operation = ''UPDATE'', Object = testCluster ''local''\<rparr>" "testCluster ''local''"]
  by (simp add: testWebhook_def testCluster_def admissionv1_Create_def KubernetesName_def)

text \<open>
  The claim as written fails where listing the Cluster resources fails: the request is a
  Create of a resource named "cluster" that decodes, no Cluster resource exists, and the
  answer is an error all the same, with status 500.
\<close>

theorem Handle_list_error_counterexample:
  "decoder (testWebhook [] (Some ''connection refused''))
      (Object \<lparr>Operation = admissionv1_Create, Object = testCluster ''cluster''\<rparr>)
     = Inr (testCluster ''cluster'')
   \<and> \<not> Allowed (Handle (testWebhook [] (Some ''connection refused''))
                  \<lparr>Operation = admissionv1_Create, Object = testCluster ''cluster''\<rparr>)
   \<and> Result_Code (Handle (testWebhook [] (Some ''connection refused''))
                  \<lparr>Operation = admissionv1_Create, Object = testCluster ''cluster''\<rparr>) = 500
   \<and> \<not> (KubernetesName (testCluster ''cluster'') \<noteq> ''cluster''
          \<or> objects (client (testWebhook [] (Some ''connection refused''))) \<noteq> [])"
  by (simp add: Handle_def Client_List_def admission_Errored_def admissionv1_Create_def
        KubernetesName_def common_Cluster_def StatusInternalServerError_def
        testWebhook_def testCluster_def)

section \<open>Properties of namespace resolution\<close>

text \<open>The model gives what each of the seven rows of \<^verbatim>\<open>TestConsulNamespace\<close> expects.\<close>

lemma consulNamespace_test_rows:
  "consulNamespace \<lparr>EnableNamespaces = False, ConsulDestinationNamespace = ''default'',
      EnableK8SNSMirroring = False, K8SNSMirroringPrefix = ''''\<rparr> ''namespace'' = ''''"
  "consulNamespace \<lparr>EnableNamespaces = False, ConsulDestinationNamespace = ''default'',
      EnableK8SNSMirroring = True, K8SNSMirroringPrefix = ''''\<rparr> ''namespace'' = ''''"
  "consulNamespace \<lparr>EnableNamespaces = False, ConsulDestinationNamespace = ''default'',
      EnableK8SNSMirroring = True, K8SNSMirroringPrefix = ''test-''\<rparr> ''namespace'' = ''''"
  "consulNamespace \<lparr>EnableNamespaces = True, ConsulDestinationNamespace = ''default'',
      EnableK8SNSMirroring = False, K8SNSMirroringPrefix = ''''\<rparr> ''namespace'' = ''default''"
  "consulNamespace \<lparr>EnableNamespaces = True, ConsulDestinationNamespace = ''default'',
      EnableK8SNSMirroring = False, K8SNSMirroringPrefix = ''test-''\<rparr> ''namespace'' = ''default''"
  "consulNamespace \<lparr>EnableNamespaces = True, ConsulDestinationNamespace = ''default'',
      EnableK8SNSMirroring = True, K8SNSMirroringPrefix = ''''\<rparr> ''namespace'' = ''namespace''"
  "consulNamespace \<lparr>EnableNamespaces = True, ConsulDestinationNamespace = ''default'',
      EnableK8SNSMirroring = True, K8SNSMirroringPrefix = ''test-''\<rparr> ''namespace'' = ''test-namespace''"
  by (simp_all add: consulNamespace_def)

text \<open>
  Claim C4, as the test table has it. With Consul namespaces enabled, the destination
  namespace is the prefix followed by the source namespace when mirroring is enabled, and
  the configured static namespace when it is not; with Consul namespaces disabled it is
  the empty string whatever the other settings are.
\<close>

theorem consulNamespace_resolution:
  "(EnableNamespaces h \<longrightarrow>
      (EnableK8SNSMirroring h \<longrightarrow> consulNamespace h ns = K8SNSMirroringPrefix h @ ns)
      \<and> (\<not> EnableK8SNSMirroring h \<longrightarrow> consulNamespace h ns = ConsulDestinationNamespace h))
   \<and> (\<not> EnableNamespaces h \<longrightarrow> consulNamespace h ns = '''')"
  by (simp add: consulNamespace_def)

theorem consulNamespace_resolution_witness:
  "consulNamespace \<lparr>EnableNamespaces = True, ConsulDestinationNamespace = ''other'',
      EnableK8SNSMirroring = True, K8SNSMirroringPrefix = ''prefix-''\<rparr> ''default'' = ''prefix-default''
   \<and> consulNamespace \<lparr>EnableNamespaces = True, ConsulDestinationNamespace = ''other'',
      EnableK8SNSMirroring = False, K8SNSMirroringPrefix = ''prefix-''\<rparr> ''kube'' = ''other''
   \<and> consulNamespace \<lparr>EnableNamespaces = False, ConsulDestinationNamespace = ''other'',
      EnableK8SNSMirroring = False, K8SNSMirroringPrefix = ''prefix-''\<rparr> ''kube'' = ''''"
  using consulNamespace_resolution
          [of "\<lparr>EnableNamespaces = True, ConsulDestinationNamespace = ''other'',
                EnableK8SNSMirroring = True, K8SNSMirroringPrefix = ''prefix-''\<rparr>" "''default''"]
        consulNamespace_resolution
          [of "\<lparr>EnableNamespaces = True, ConsulDestinationNamespace = ''other'',
                EnableK8SNSMirroring = False, K8SNSMirroringPrefix = ''prefix-''\<rparr>" "''kube''"]
        consulNamespace_resolution
          [of "\<lparr>EnableNamespaces = False, ConsulDestinationNamespace = ''other'',
                EnableK8SNSMirroring = False, K8SNSMirroringPrefix = ''prefix-''\<rparr>" "''kube''"]
  by simp

text \<open>
  The claim as written fails on the second row of the test table: mirroring is enabled,
  the prefix is empty, the source namespace is "namespace", and the result is the empty
  string, not the prefix followed by the source namespace.
\<close>

theorem consulNamespace_mirroring_counterexample:
  "EnableK8SNSMirroring \<lparr>EnableNamespaces = False, ConsulDestinationNamespace = ''default'',
      EnableK8SNSMirroring = True, K8SNSMirroringPrefix = ''''\<rparr>
   \<and> consulNamespace \<lparr>EnableNamespaces = False, ConsulDestinationNamespace = ''default'',
      EnableK8SNSMirroring = True, K8SNSMirroringPrefix = ''''\<rparr> ''namespace''
     \<noteq> K8SNSMirroringPrefix \<lparr>EnableNamespaces = False, ConsulDestinationNamespace = ''default'',
      EnableK8SNSMirroring = True, K8SNSMirroringPrefix = ''''\<rparr> @ ''namespace''"
  by (simp add: consulNamespace_def)

end
